theory Spec2Isabelle
  imports Complex_Main
begin

section \<open>The Pong game of script.js\<close>

text \<open>
  The program is one closure over a block of mutable variables. The embedding makes
  that block a record \<open>game\<close> and every function of the script a function from
  \<open>game\<close> to \<open>game\<close>. JavaScript numbers are modelled as real numbers, so
  arithmetic is exact: \<open>Math.PI\<close> is \<open>pi\<close>, \<open>Math.hypot\<close> is the Euclidean norm
  and \<open>Math.cos\<close>, \<open>Math.sin\<close> are \<open>cos\<close>, \<open>sin\<close>. Infinities and \<open>NaN\<close> are
  outside the model. Rounding is modelled where it decides a property: for the
  gain of speed in a bounce, \<open>reflectFromPaddle_fp\<close> rounds every operation.
  The two scores only ever hold \<open>0\<close> or the result of \<open>++\<close>, so they are natural
  numbers.

  \<open>WIDTH\<close> and \<open>HEIGHT\<close> are read from the canvas element of the page, which is not
  part of the script; they are the parameters \<open>W\<close> and \<open>H\<close>. A value returned by
  \<open>Math.random()\<close> is a parameter of the function that draws it.
\<close>

subsection \<open>State\<close>

definition WIN_SCORE :: nat where "WIN_SCORE = 10"
definition PADDLE_WIDTH :: real where "PADDLE_WIDTH = 12"
definition PADDLE_HEIGHT :: real where "PADDLE_HEIGHT = 90"
definition PADDLE_SPEED :: real where "PADDLE_SPEED = 12"

record paddle =
  paddle_x :: real
  paddle_y :: real
  paddle_width :: real
  paddle_height :: real
  paddle_dy :: real

record ai_paddle = paddle +
  maxSpeed :: real

record ball =
  ball_x :: real
  ball_y :: real
  ball_radius :: real
  ball_speed :: real
  ball_vx :: real
  ball_vy :: real

record keys =
  ArrowUp :: bool
  ArrowDown :: bool

text \<open>
  The page elements the script writes to are part of the state: the two score
  fields, the message element (its text and whether its class list holds
  \<open>hidden\<close>), and the number of animation frames requested so far.
\<close>

record game =
  paused :: bool
  gameOver :: bool
  leftPaddle :: paddle
  rightPaddle :: ai_paddle
  ball :: ball
  playerScore :: nat
  computerScore :: nat
  keys :: keys
  playerScoreEl :: nat
  computerScoreEl :: nat
  message_hidden :: bool
  message_text :: string
  frames_requested :: nat

text \<open>\<open>paddle === leftPaddle\<close> compares object identity: a paddle argument is a reference.\<close>

datatype paddle_ref = LeftPaddle | RightPaddle

fun deref :: "paddle_ref \<Rightarrow> game \<Rightarrow> paddle" where
  "deref LeftPaddle s = leftPaddle s"
| "deref RightPaddle s = paddle.truncate (rightPaddle s)"

text \<open>The state the top-level declarations build (lines 19 to 63), before the kick-off.\<close>

definition initial :: "real \<Rightarrow> real \<Rightarrow> bool \<Rightarrow> string \<Rightarrow> game" where
  "initial W H hidden0 text0 =
     \<lparr> paused = False, gameOver = False,
       leftPaddle = \<lparr> paddle_x = 20, paddle_y = (H - PADDLE_HEIGHT) / 2,
                      paddle_width = PADDLE_WIDTH, paddle_height = PADDLE_HEIGHT,
                      paddle_dy = 0 \<rparr>,
       rightPaddle = \<lparr> paddle_x = W - PADDLE_WIDTH - 20, paddle_y = (H - PADDLE_HEIGHT) / 2,
                       paddle_width = PADDLE_WIDTH, paddle_height = PADDLE_HEIGHT,
                       paddle_dy = 0, maxSpeed = 10 \<rparr>,
       ball = \<lparr> ball_x = W / 2, ball_y = H / 2, ball_radius = 9, ball_speed = 0,
                ball_vx = 0, ball_vy = 0 \<rparr>,
       playerScore = 0, computerScore = 0,
       keys = \<lparr> ArrowUp = False, ArrowDown = False \<rparr>,
       playerScoreEl = 0, computerScoreEl = 0,
       message_hidden = hidden0, message_text = text0,
       frames_requested = 0 \<rparr>"

subsection \<open>Utilities\<close>

definition clamp :: "real \<Rightarrow> real \<Rightarrow> real \<Rightarrow> real" where
  "clamp v a b = max a (min b v)"

definition hypot :: "real \<Rightarrow> real \<Rightarrow> real" where
  "hypot a b = sqrt (a\<^sup>2 + b\<^sup>2)"

definition requestAnimationFrame :: "game \<Rightarrow> game" where
  "requestAnimationFrame s = s\<lparr>frames_requested := frames_requested s + 1\<rparr>"

definition updateScoreboard :: "game \<Rightarrow> game" where
  "updateScoreboard s =
     s\<lparr>playerScoreEl := playerScore s, computerScoreEl := computerScore s\<rparr>"

subsection \<open>Serving the ball\<close>

text \<open>
  \<open>resetBall direction\<close> draws \<open>Math.random()\<close> once for the angle (\<open>u\<close>) and, when
  the direction is \<open>0\<close>, a second time for the side (\<open>u'\<close>).
\<close>

definition serveAngle :: "real \<Rightarrow> real" where
  "serveAngle u = ((u * 90 - 45) * pi) / 180"

definition resetBall :: "real \<Rightarrow> real \<Rightarrow> real \<Rightarrow> real \<Rightarrow> real \<Rightarrow> game \<Rightarrow> game" where
  "resetBall W H direction u u' s =
     (let speed = 9 + real (min (playerScore s + computerScore s) 12) * 0.35;
          angle = serveAngle u;
          dir = (if direction = 0 then (if u' < 0.5 then - 1 else 1) else direction)
      in s\<lparr>ball := (ball s)\<lparr>ball_x := W / 2, ball_y := H / 2, ball_speed := speed,
                             ball_vx := dir * speed * cos angle,
                             ball_vy := speed * sin angle\<rparr>\<rparr>)"

subsection \<open>Collision and reflection\<close>

definition paddleCollision :: "paddle_ref \<Rightarrow> game \<Rightarrow> bool" where
  "paddleCollision p s =
     (let pd = deref p s; b = ball s;
          closestX = clamp (ball_x b) (paddle_x pd) (paddle_x pd + paddle_width pd);
          closestY = clamp (ball_y b) (paddle_y pd) (paddle_y pd + paddle_height pd);
          dx = ball_x b - closestX;
          dy = ball_y b - closestY
      in dx * dx + dy * dy \<le> ball_radius b * ball_radius b)"

definition relativeY :: "paddle_ref \<Rightarrow> game \<Rightarrow> real" where
  "relativeY p s =
     (ball_y (ball s) - (paddle_y (deref p s) + paddle_height (deref p s) / 2))
       / (paddle_height (deref p s) / 2)"

definition maxAngle :: real where
  "maxAngle = (60 * pi) / 180"

definition bounceAngle :: "paddle_ref \<Rightarrow> game \<Rightarrow> real" where
  "bounceAngle p s = relativeY p s * maxAngle"

definition reflectFromPaddle :: "paddle_ref \<Rightarrow> game \<Rightarrow> game" where
  "reflectFromPaddle p s =
     (let angle = bounceAngle p s;
          speedIncrease = 0.8;
          currentSpeed = hypot (ball_vx (ball s)) (ball_vy (ball s)) + speedIncrease;
          dir = (if p = LeftPaddle then 1 else - 1);
          vx1 = dir * currentSpeed * cos angle;
          vy1 = currentSpeed * sin angle;
          minHorizontal = 2.5;
          vx2 = (if \<bar>vx1\<bar> < minHorizontal then dir * minHorizontal else vx1)
      in s\<lparr>ball := (ball s)\<lparr>ball_vx := vx2, ball_vy := vy1\<rparr>\<rparr>)"

subsection \<open>End of the match\<close>

definition endGame :: "bool \<Rightarrow> game \<Rightarrow> game" where
  "endGame playerWon s =
     s\<lparr>gameOver := True, paused := True, message_hidden := False,
       message_text := (if playerWon then ''You win! Refresh the page to play again.''
                        else ''Computer wins. Refresh to try again.'')\<rparr>"

subsection \<open>The simulation step\<close>

text \<open>
  \<open>update\<close> is one function in the script. Its body is a sequence of six blocks, each
  of which is a definition here, in the order of the source.
\<close>

text \<open>Lines 153 to 162: keyboard stepping of the player's paddle, then the clamp.\<close>

definition keyboardStep :: "real \<Rightarrow> game \<Rightarrow> game" where
  "keyboardStep H s =
     (let y0 = paddle_y (leftPaddle s);
          y1 = (if ArrowUp (keys s) then y0 - PADDLE_SPEED else y0);
          y2 = (if ArrowDown (keys s) then y1 + PADDLE_SPEED else y1)
      in s\<lparr>leftPaddle := (leftPaddle s)
             \<lparr>paddle_y := clamp y2 0 (H - paddle_height (leftPaddle s))\<rparr>\<rparr>)"

text \<open>Lines 164 to 179: the computer's paddle follows the ball at a bounded rate.\<close>

definition aiStep :: "real \<Rightarrow> game \<Rightarrow> game" where
  "aiStep H s =
     (let rp = rightPaddle s;
          targetY = (if ball_vx (ball s) < 0 then H / 2 - paddle_height rp / 2
                     else ball_y (ball s) - paddle_height rp / 2);
          diff = targetY - paddle_y rp;
          maxMove = maxSpeed rp;
          y1 = (if \<bar>diff\<bar> > maxMove then paddle_y rp + sgn diff * maxMove
                else paddle_y rp + diff)
      in s\<lparr>rightPaddle := rp\<lparr>paddle_y := clamp y1 0 (H - paddle_height rp)\<rparr>\<rparr>)"

text \<open>Lines 181 to 183.\<close>

definition ballMove :: "game \<Rightarrow> game" where
  "ballMove s =
     s\<lparr>ball := (ball s)\<lparr>ball_x := ball_x (ball s) + ball_vx (ball s),
                           ball_y := ball_y (ball s) + ball_vy (ball s)\<rparr>\<rparr>"

text \<open>Lines 185 to 192: top and bottom walls.\<close>

definition wallCollision :: "real \<Rightarrow> game \<Rightarrow> game" where
  "wallCollision H s =
     (let b = ball s in
      if ball_y b - ball_radius b \<le> 0
      then s\<lparr>ball := b\<lparr>ball_y := ball_radius b, ball_vy := - ball_vy b\<rparr>\<rparr>
      else if ball_y b + ball_radius b \<ge> H
      then s\<lparr>ball := b\<lparr>ball_y := H - ball_radius b, ball_vy := - ball_vy b\<rparr>\<rparr>
      else s)"

text \<open>Lines 194 to 202: a paddle hit moves the ball off the paddle and reflects it.\<close>

definition paddleBounce :: "game \<Rightarrow> game" where
  "paddleBounce s =
     (if ball_vx (ball s) < 0 \<and> paddleCollision LeftPaddle s
      then reflectFromPaddle LeftPaddle
             (s\<lparr>ball := (ball s)\<lparr>ball_x := paddle_x (leftPaddle s)
                 + paddle_width (leftPaddle s) + ball_radius (ball s)\<rparr>\<rparr>)
      else if ball_vx (ball s) > 0 \<and> paddleCollision RightPaddle s
      then reflectFromPaddle RightPaddle
             (s\<lparr>ball := (ball s)\<lparr>ball_x := paddle_x (rightPaddle s)
                 - ball_radius (ball s)\<rparr>\<rparr>)
      else s)"

text \<open>
  Lines 204 to 223: the score check. \<open>u\<close> is the value \<open>Math.random()\<close> returns if
  the ball is served again.
\<close>

definition scoreCheck :: "real \<Rightarrow> real \<Rightarrow> real \<Rightarrow> game \<Rightarrow> game" where
  "scoreCheck W H u s =
     (if ball_x (ball s) < - ball_radius (ball s)
      then (let s1 = updateScoreboard (s\<lparr>computerScore := computerScore s + 1\<rparr>)
            in if computerScore s1 \<ge> WIN_SCORE then endGame False s1
               else resetBall W H 1 u 0 s1)
      else if ball_x (ball s) > W + ball_radius (ball s)
      then (let s1 = updateScoreboard (s\<lparr>playerScore := playerScore s + 1\<rparr>)
            in if playerScore s1 \<ge> WIN_SCORE then endGame True s1
               else resetBall W H (- 1) u 0 s1)
      else s)"

definition update :: "real \<Rightarrow> real \<Rightarrow> real \<Rightarrow> game \<Rightarrow> game" where
  "update W H u s =
     (if paused s \<or> gameOver s then s
      else scoreCheck W H u (paddleBounce (wallCollision H (ballMove
             (aiStep H (keyboardStep H s))))))"

subsection \<open>Loop and entry points\<close>

text \<open>\<open>draw\<close> only reads the state and paints the canvas; it has no part in the model.\<close>

definition loop :: "real \<Rightarrow> real \<Rightarrow> real \<Rightarrow> game \<Rightarrow> game" where
  "loop W H u s =
     (let s1 = update W H u s
      in if \<not> gameOver s1 then requestAnimationFrame s1 else s1)"

text \<open>
  \<open>start\<close> draws twice in \<open>resetBall()\<close> (\<open>u\<close>, \<open>u'\<close>) and its call of \<open>loop\<close> may
  draw once more (\<open>u''\<close>).
\<close>

definition start :: "real \<Rightarrow> real \<Rightarrow> real \<Rightarrow> real \<Rightarrow> real \<Rightarrow> game \<Rightarrow> game" where
  "start W H u u' u'' s =
     (let s1 = resetBall W H 0 u u' s;
          s2 = s1\<lparr>playerScore := 0\<rparr>;
          s3 = s2\<lparr>computerScore := 0\<rparr>;
          s4 = updateScoreboard s3
      in loop W H u'' s4)"

text \<open>Lines 310 to 313: what the script does when it is loaded.\<close>

definition kickoff :: "real \<Rightarrow> real \<Rightarrow> real \<Rightarrow> real \<Rightarrow> game \<Rightarrow> game" where
  "kickoff W H u u' s = requestAnimationFrame (updateScoreboard (resetBall W H 0 u u' s))"

subsection \<open>Input handlers\<close>

definition keydown :: "string \<Rightarrow> game \<Rightarrow> game" where
  "keydown code s =
     (if code = ''ArrowUp'' then s\<lparr>keys := (keys s)\<lparr>ArrowUp := True\<rparr>\<rparr>
      else if code = ''ArrowDown'' then s\<lparr>keys := (keys s)\<lparr>ArrowDown := True\<rparr>\<rparr>
      else if code = ''Space'' then
        (let s1 = s\<lparr>paused := \<not> paused s\<rparr>;
             s2 = (if \<not> paused s1 \<and> \<not> gameOver s1 then requestAnimationFrame s1 else s1)
         in s2\<lparr>message_hidden := \<not> paused s2,
                message_text := (if paused s2 then ''Paused'' else '''')\<rparr>)
      else s)"

definition keyup :: "string \<Rightarrow> game \<Rightarrow> game" where
  "keyup code s =
     (if code = ''ArrowUp'' then s\<lparr>keys := (keys s)\<lparr>ArrowUp := False\<rparr>\<rparr>
      else if code = ''ArrowDown'' then s\<lparr>keys := (keys s)\<lparr>ArrowDown := False\<rparr>\<rparr>
      else s)"

text \<open>
  A pointer event carries \<open>clientY\<close>; \<open>rect_top\<close> and \<open>rect_height\<close> are what
  \<open>getBoundingClientRect\<close> returns, and \<open>canvas.height\<close> is \<open>H\<close>.
\<close>

definition mousemove :: "real \<Rightarrow> real \<Rightarrow> real \<Rightarrow> real \<Rightarrow> game \<Rightarrow> game" where
  "mousemove H clientY rect_top rect_height s =
     (let scaleY = H / rect_height;
          mouseY = (clientY - rect_top) * scaleY
      in s\<lparr>leftPaddle := (leftPaddle s)
             \<lparr>paddle_y := clamp (mouseY - paddle_height (leftPaddle s) / 2) 0
                             (H - paddle_height (leftPaddle s))\<rparr>\<rparr>)"

text \<open>
  \<open>touches\<close> lists the \<open>clientY\<close> of the event's touch points. With no touch point
  \<open>e.touches[0]\<close> is undefined and reading its \<open>clientY\<close> throws before any
  assignment: the state is unchanged.
\<close>

definition touchmove :: "real \<Rightarrow> real list \<Rightarrow> real \<Rightarrow> real \<Rightarrow> game \<Rightarrow> game" where
  "touchmove H touches rect_top rect_height s =
     (case touches of
        [] \<Rightarrow> s
      | touch_clientY # _ \<Rightarrow>
          (let scaleY = H / rect_height;
               touchY = (touch_clientY - rect_top) * scaleY
           in s\<lparr>leftPaddle := (leftPaddle s)
                  \<lparr>paddle_y := clamp (touchY - paddle_height (leftPaddle s) / 2) 0
                                  (H - paddle_height (leftPaddle s))\<rparr>\<rparr>))"

text \<open>Everything that can run after the script is loaded, as one event type.\<close>

datatype event =
    Frame real
  | KeyDown string
  | KeyUp string
  | MouseMove real real real
  | TouchMove "real list" real real
  | CallStart real real real
  | CallResetBall real real real

fun handle :: "real \<Rightarrow> real \<Rightarrow> game \<Rightarrow> event \<Rightarrow> game" where
  "handle W H s (Frame u) = loop W H u s"
| "handle W H s (KeyDown code) = keydown code s"
| "handle W H s (KeyUp code) = keyup code s"
| "handle W H s (MouseMove clientY rect_top rect_height) =
     mousemove H clientY rect_top rect_height s"
| "handle W H s (TouchMove touches rect_top rect_height) =
     touchmove H touches rect_top rect_height s"
| "handle W H s (CallStart u u' u'') = start W H u u' u'' s"
| "handle W H s (CallResetBall direction u u') = resetBall W H direction u u' s"

subsection \<open>Invariants and sample states\<close>

text \<open>
  The geometry the top-level declarations fix and no function assigns to: the
  paddles' \<open>x\<close>, \<open>width\<close> and \<open>height\<close>, the computer's \<open>maxSpeed\<close> and the ball's
  \<open>radius\<close>.
\<close>

definition geometry :: "real \<Rightarrow> game \<Rightarrow> bool" where
  "geometry W s \<longleftrightarrow>
     paddle_x (leftPaddle s) = 20 \<and>
     paddle_width (leftPaddle s) = PADDLE_WIDTH \<and>
     paddle_height (leftPaddle s) = PADDLE_HEIGHT \<and>
     paddle_x (rightPaddle s) = W - PADDLE_WIDTH - 20 \<and>
     paddle_width (rightPaddle s) = PADDLE_WIDTH \<and>
     paddle_height (rightPaddle s) = PADDLE_HEIGHT \<and>
     maxSpeed (rightPaddle s) = 10 \<and>
     ball_radius (ball s) = 9"

definition legal_y :: "real \<Rightarrow> real \<Rightarrow> bool" where
  "legal_y H y \<longleftrightarrow> 0 \<le> y \<and> y \<le> H - PADDLE_HEIGHT"

definition paddles_legal :: "real \<Rightarrow> game \<Rightarrow> bool" where
  "paddles_legal H s \<longleftrightarrow>
     legal_y H (paddle_y (leftPaddle s)) \<and> legal_y H (paddle_y (rightPaddle s))"

text \<open>
  Sample states, on a canvas of 800 by 500. \<open>loaded\<close> is the state once the script
  has run, with draws that serve the ball horizontally to the right.
\<close>

definition loaded :: game where
  "loaded = kickoff 800 500 (1/2) (1/2) (initial 800 500 True [])"

definition set_ball :: "real \<Rightarrow> real \<Rightarrow> real \<Rightarrow> real \<Rightarrow> game \<Rightarrow> game" where
  "set_ball x y vx vy s =
     s\<lparr>ball := (ball s)\<lparr>ball_x := x, ball_y := y, ball_vx := vx, ball_vy := vy\<rparr>\<rparr>"

text \<open>The ball one unit beyond the left edge minus its radius, still moving right.\<close>

definition behind_left_moving_right :: game where
  "behind_left_moving_right = set_ball (- 9 - 1) 250 9 0 loaded"

text \<open>The ball leaving on the left and on the right.\<close>

definition leaving_left :: game where
  "leaving_left = set_ball (- 9 - 1) 250 (- 9) 0 loaded"

definition leaving_right :: game where
  "leaving_right = set_ball (800 + 9 + 1) 250 9 0 loaded"

text \<open>The computer leads 9 to 0 and the ball is leaving on the left.\<close>

definition match_point :: game where
  "match_point = leaving_left\<lparr>computerScore := 9, computerScoreEl := 9\<rparr>"

definition match_over :: game where
  "match_over = update 800 500 (1/2) match_point"

text \<open>A match in progress at 3 to 2.\<close>

definition mid_match :: game where
  "mid_match = loaded\<lparr>playerScore := 3, computerScore := 2,
                       playerScoreEl := 3, computerScoreEl := 2\<rparr>"

text \<open>
  The ball touching the face of a paddle: the left one at its centre and at its
  lower end, the right one at its centre. Both paddles are at \<open>y = 205\<close>.
\<close>

definition hits_left_centre :: game where
  "hits_left_centre = set_ball 35 250 (- 9) 0 loaded"


definition hits_right_centre :: game where
  "hits_right_centre = set_ball 765 250 9 0 loaded"

text \<open>The speed a serve gets: the right-hand side of the assignment to \<open>ball.speed\<close>.\<close>

definition serveSpeed :: "game \<Rightarrow> real" where
  "serveSpeed s = 9 + real (min (playerScore s + computerScore s) 12) * 0.35"

text \<open>The step from the keyboard block up to the paddle block, before the score check.\<close>

abbreviation physics :: "real \<Rightarrow> game \<Rightarrow> game" where
  "physics H s \<equiv> paddleBounce (wallCollision H (ballMove (aiStep H (keyboardStep H s))))"

subsection \<open>Rounded arithmetic\<close>

text \<open>
  For the one property that rounding decides, the gain of speed in a bounce,
  \<open>reflectFromPaddle\<close> is modelled a second time with every operation rounded,
  as the script runs it on binary64 numbers. \<open>rne\<close> rounds to the nearest integer,
  ties to even; \<open>round64\<close> rounds to 53 significant bits (the exponent limits of
  binary64 are not modelled: no value of the game comes close to them).
\<close>

definition rne :: "real \<Rightarrow> int" where
  "rne x =
     (let f = \<lfloor>x\<rfloor>; r = x - of_int f
      in if r < 1/2 then f else if 1/2 < r then f + 1 else if even f then f else f + 1)"


text \<open>
  The arithmetic of the host: \<open>rnd\<close> is the rounding of a literal and of the result
  of \<open>+\<close>, \<open>-\<close>, \<open>*\<close>, \<open>/\<close>; \<open>fcos\<close>, \<open>fsin\<close> and \<open>fhypot\<close> are \<open>Math.cos\<close>,
  \<open>Math.sin\<close> and \<open>Math.hypot\<close>, which the language leaves to the implementation.
  \<open>exact_fpu\<close> does not round; \<open>binary64\<close> rounds correctly everywhere.
  \<open>accurate u\<close> bounds the relative error of every operation by \<open>u\<close>.
\<close>

record fpu =
  rnd :: "real \<Rightarrow> real"
  fcos :: "real \<Rightarrow> real"
  fsin :: "real \<Rightarrow> real"
  fhypot :: "real \<Rightarrow> real \<Rightarrow> real"

definition exact_fpu :: fpu where
  "exact_fpu = \<lparr> rnd = (\<lambda>x. x), fcos = cos, fsin = sin, fhypot = hypot \<rparr>"



text \<open>
  Lines 227 to 247 again, one rounding for each operation and literal of the source,
  in the order in which the expressions are evaluated. With \<open>exact_fpu\<close> this is
  \<open>reflectFromPaddle\<close>.
\<close>

definition reflectFromPaddle_fp :: "fpu \<Rightarrow> paddle_ref \<Rightarrow> game \<Rightarrow> game" where
  "reflectFromPaddle_fp E p s =
     (let pd = deref p s;
          half = rnd E (paddle_height pd / 2);
          relativeY = rnd E (rnd E (ball_y (ball s) - rnd E (paddle_y pd + half)) / half);
          maxAngle = rnd E (rnd E (60 * rnd E pi) / 180);
          angle = rnd E (relativeY * maxAngle);
          speedIncrease = rnd E 0.8;
          currentSpeed = rnd E (fhypot E (ball_vx (ball s)) (ball_vy (ball s)) + speedIncrease);
          dir = (if p = LeftPaddle then 1 else - 1);
          vx1 = rnd E (rnd E (dir * currentSpeed) * fcos E angle);
          vy1 = rnd E (currentSpeed * fsin E angle);
          minHorizontal = rnd E 2.5;
          vx2 = (if \<bar>vx1\<bar> < minHorizontal then rnd E (dir * minHorizontal) else vx1)
      in s\<lparr>ball := (ball s)\<lparr>ball_vx := vx2, ball_vy := vy1\<rparr>\<rparr>)"


section \<open>Properties\<close>

subsection \<open>Arithmetic and trigonometry\<close>

lemma truncate_fields [simp]:
  "paddle_x (paddle.truncate r) = paddle_x r"
  "paddle_y (paddle.truncate r) = paddle_y r"
  "paddle_width (paddle.truncate r) = paddle_width r"
  "paddle_height (paddle.truncate r) = paddle_height r"
  by (simp_all add: paddle.truncate_def)

lemma hypot_nonneg: "0 \<le> hypot a b"
  by (simp add: hypot_def)

lemma hypot_mono: "\<bar>a\<bar> \<le> \<bar>a'\<bar> \<Longrightarrow> hypot a b \<le> hypot a' b"
  unfolding hypot_def by (simp add: abs_le_square_iff)

lemma hypot_polar:
  fixes d c a :: real
  assumes d: "d = 1 \<or> d = - 1" and c: "0 \<le> c"
  shows "hypot (d * c * cos a) (c * sin a) = c"
proof -
  have d2: "d\<^sup>2 = 1" using d by auto
  have "(d * c * cos a)\<^sup>2 + (c * sin a)\<^sup>2 = c\<^sup>2 * (cos a)\<^sup>2 + c\<^sup>2 * (sin a)\<^sup>2"
    by (simp add: power_mult_distrib d2)
  also have "\<dots> = c\<^sup>2 * ((cos a)\<^sup>2 + (sin a)\<^sup>2)"
    by (simp only: distrib_left)
  also have "\<dots> = c\<^sup>2" by simp
  finally show ?thesis using c by (simp add: hypot_def)
qed

lemma clamp_bounds: "a \<le> b \<Longrightarrow> a \<le> clamp v a b \<and> clamp v a b \<le> b"
  by (simp add: clamp_def)

lemma serveAngle_bounds:
  assumes "0 \<le> u" "u < 1"
  shows "- (pi / 4) \<le> serveAngle u" "serveAngle u < pi / 4"
proof -
  have eq: "serveAngle u = (u - 1/2) * (pi / 2)"
    by (simp add: serveAngle_def field_simps)
  have k: "0 < pi / 2" by simp
  have "(- (1/2)) * (pi / 2) \<le> (u - 1/2) * (pi / 2)"
    using assms(1) k by (intro mult_right_mono) auto
  then show "- (pi / 4) \<le> serveAngle u" by (simp add: eq)
  have "(u - 1/2) * (pi / 2) < (1/2) * (pi / 2)"
    using assms(2) k by (intro mult_strict_right_mono) auto
  then show "serveAngle u < pi / 4" by (simp add: eq)
qed

lemma sin_le_cos_nonneg:
  assumes "0 \<le> a" "a \<le> pi / 4"
  shows "sin a \<le> cos a"
proof -
  have "sin a \<le> sin (pi / 4)"
    using assms by (subst sin_mono_le_eq) auto
  also have "\<dots> = cos (pi / 4)" by (simp add: sin_45 cos_45)
  also have "\<dots> \<le> cos a"
    using assms by (subst cos_mono_le_eq) auto
  finally show ?thesis .
qed

lemma abs_sin_le_cos:
  assumes "\<bar>a\<bar> \<le> pi / 4"
  shows "\<bar>sin a\<bar> \<le> cos a"
proof (cases "0 \<le> a")
  case True
  then have "0 \<le> sin a" using assms by (intro sin_ge_zero) auto
  then show ?thesis using sin_le_cos_nonneg[of a] True assms by simp
next
  case False
  then have n: "0 \<le> - a" "- a \<le> pi / 4" using assms by auto
  have "0 \<le> sin (- a)" using n by (intro sin_ge_zero) auto
  then show ?thesis using sin_le_cos_nonneg[OF n] by simp
qed

lemma cos_pos_of_abs:
  assumes "\<bar>a\<bar> < pi / 2"
  shows "0 < cos a"
  using assms by (intro cos_gt_zero_pi) auto

subsection \<open>What a serve assigns\<close>

lemma serveSpeed_pos: "0 < serveSpeed s"
proof -
  have "0 \<le> real (min (playerScore s + computerScore s) 12) * 0.35" by simp
  then show ?thesis unfolding serveSpeed_def by linarith
qed

lemma resetBall_velocity:
  "ball_vx (ball (resetBall W H direction u u' s)) =
     (if direction = 0 then (if u' < 0.5 then - 1 else 1) else direction)
       * serveSpeed s * cos (serveAngle u)"
  "ball_vy (ball (resetBall W H direction u u' s)) = serveSpeed s * sin (serveAngle u)"
  "ball_speed (ball (resetBall W H direction u u' s)) = serveSpeed s"
  by (simp_all add: resetBall_def serveSpeed_def Let_def)

lemma resetBall_position:
  "ball_x (ball (resetBall W H direction u u' s)) = W / 2"
  "ball_y (ball (resetBall W H direction u u' s)) = H / 2"
  by (simp_all add: resetBall_def Let_def)

lemma resetBall_frame [simp]:
  "paused (resetBall W H d u u' s) = paused s"
  "gameOver (resetBall W H d u u' s) = gameOver s"
  "playerScore (resetBall W H d u u' s) = playerScore s"
  "computerScore (resetBall W H d u u' s) = computerScore s"
  "leftPaddle (resetBall W H d u u' s) = leftPaddle s"
  "rightPaddle (resetBall W H d u u' s) = rightPaddle s"
  by (simp_all add: resetBall_def Let_def)

subsection \<open>What each block of the step leaves alone\<close>

lemma reflectFromPaddle_frame [simp]:
  "paused (reflectFromPaddle p s) = paused s"
  "gameOver (reflectFromPaddle p s) = gameOver s"
  "playerScore (reflectFromPaddle p s) = playerScore s"
  "computerScore (reflectFromPaddle p s) = computerScore s"
  "leftPaddle (reflectFromPaddle p s) = leftPaddle s"
  "rightPaddle (reflectFromPaddle p s) = rightPaddle s"
  "ball_x (ball (reflectFromPaddle p s)) = ball_x (ball s)"
  "ball_y (ball (reflectFromPaddle p s)) = ball_y (ball s)"
  "ball_radius (ball (reflectFromPaddle p s)) = ball_radius (ball s)"
  "ball_speed (ball (reflectFromPaddle p s)) = ball_speed (ball s)"
  by (simp_all add: reflectFromPaddle_def Let_def)

lemma paddleBounce_frame [simp]:
  "paused (paddleBounce s) = paused s"
  "gameOver (paddleBounce s) = gameOver s"
  "playerScore (paddleBounce s) = playerScore s"
  "computerScore (paddleBounce s) = computerScore s"
  "leftPaddle (paddleBounce s) = leftPaddle s"
  "rightPaddle (paddleBounce s) = rightPaddle s"
  "ball_y (ball (paddleBounce s)) = ball_y (ball s)"
  "ball_radius (ball (paddleBounce s)) = ball_radius (ball s)"
  "ball_speed (ball (paddleBounce s)) = ball_speed (ball s)"
  by (simp_all add: paddleBounce_def)

lemma wallCollision_frame [simp]:
  "paused (wallCollision H s) = paused s"
  "gameOver (wallCollision H s) = gameOver s"
  "playerScore (wallCollision H s) = playerScore s"
  "computerScore (wallCollision H s) = computerScore s"
  "leftPaddle (wallCollision H s) = leftPaddle s"
  "rightPaddle (wallCollision H s) = rightPaddle s"
  "ball_x (ball (wallCollision H s)) = ball_x (ball s)"
  "ball_vx (ball (wallCollision H s)) = ball_vx (ball s)"
  "ball_radius (ball (wallCollision H s)) = ball_radius (ball s)"
  "ball_speed (ball (wallCollision H s)) = ball_speed (ball s)"
  by (simp_all add: wallCollision_def Let_def)

lemma ballMove_frame [simp]:
  "paused (ballMove s) = paused s"
  "gameOver (ballMove s) = gameOver s"
  "playerScore (ballMove s) = playerScore s"
  "computerScore (ballMove s) = computerScore s"
  "leftPaddle (ballMove s) = leftPaddle s"
  "rightPaddle (ballMove s) = rightPaddle s"
  "ball_x (ball (ballMove s)) = ball_x (ball s) + ball_vx (ball s)"
  "ball_vx (ball (ballMove s)) = ball_vx (ball s)"
  "ball_radius (ball (ballMove s)) = ball_radius (ball s)"
  "ball_speed (ball (ballMove s)) = ball_speed (ball s)"
  by (simp_all add: ballMove_def)

lemma aiStep_frame [simp]:
  "paused (aiStep H s) = paused s"
  "gameOver (aiStep H s) = gameOver s"
  "playerScore (aiStep H s) = playerScore s"
  "computerScore (aiStep H s) = computerScore s"
  "leftPaddle (aiStep H s) = leftPaddle s"
  "ball (aiStep H s) = ball s"
  "paddle_x (rightPaddle (aiStep H s)) = paddle_x (rightPaddle s)"
  "paddle_width (rightPaddle (aiStep H s)) = paddle_width (rightPaddle s)"
  "paddle_height (rightPaddle (aiStep H s)) = paddle_height (rightPaddle s)"
  "maxSpeed (rightPaddle (aiStep H s)) = maxSpeed (rightPaddle s)"
  by (simp_all add: aiStep_def Let_def)

lemma keyboardStep_frame [simp]:
  "paused (keyboardStep H s) = paused s"
  "gameOver (keyboardStep H s) = gameOver s"
  "playerScore (keyboardStep H s) = playerScore s"
  "computerScore (keyboardStep H s) = computerScore s"
  "rightPaddle (keyboardStep H s) = rightPaddle s"
  "ball (keyboardStep H s) = ball s"
  "paddle_x (leftPaddle (keyboardStep H s)) = paddle_x (leftPaddle s)"
  "paddle_width (leftPaddle (keyboardStep H s)) = paddle_width (leftPaddle s)"
  "paddle_height (leftPaddle (keyboardStep H s)) = paddle_height (leftPaddle s)"
  by (simp_all add: keyboardStep_def Let_def)

lemma scoreCheck_paddles [simp]:
  "leftPaddle (scoreCheck W H u s) = leftPaddle s"
  "rightPaddle (scoreCheck W H u s) = rightPaddle s"
  by (simp_all add: scoreCheck_def updateScoreboard_def endGame_def resetBall_def Let_def)

lemma update_running:
  "\<not> paused s \<Longrightarrow> \<not> gameOver s \<Longrightarrow>
   update W H u s = scoreCheck W H u (paddleBounce (wallCollision H (ballMove
             (aiStep H (keyboardStep H s)))))"
  by (simp add: update_def)

lemma update_halted: "paused s \<or> gameOver s \<Longrightarrow> update W H u s = s"
  by (simp add: update_def)

lemma geometry_before_bounce [simp]:
  "geometry W (wallCollision H (ballMove (aiStep H (keyboardStep H s)))) = geometry W s"
  by (simp add: geometry_def)

lemma deref_set_ball_field [simp]: "deref p (s\<lparr>ball := b\<rparr>) = deref p s"
  by (cases p) simp_all

lemma relativeY_ball_x [simp]:
  "relativeY p (s\<lparr>ball := (ball s)\<lparr>ball_x := v\<rparr>\<rparr>) = relativeY p s"
  by (simp add: relativeY_def)

subsection \<open>Clamped paddle positions\<close>

lemma keyboardStep_legal:
  "paddle_height (leftPaddle s) = PADDLE_HEIGHT \<Longrightarrow> PADDLE_HEIGHT \<le> H \<Longrightarrow>
   legal_y H (paddle_y (leftPaddle (keyboardStep H s)))"
  using clamp_bounds[of 0 "H - PADDLE_HEIGHT"]
  by (simp add: keyboardStep_def Let_def legal_y_def)

lemma aiStep_legal:
  "paddle_height (rightPaddle s) = PADDLE_HEIGHT \<Longrightarrow> PADDLE_HEIGHT \<le> H \<Longrightarrow>
   legal_y H (paddle_y (rightPaddle (aiStep H s)))"
  using clamp_bounds[of 0 "H - PADDLE_HEIGHT"]
  by (simp add: aiStep_def Let_def legal_y_def)

lemma update_legal:
  assumes "geometry W s" "PADDLE_HEIGHT \<le> H" "\<not> paused s" "\<not> gameOver s"
  shows "paddles_legal H (update W H u s)"
  using assms keyboardStep_legal[of s H] aiStep_legal[of "keyboardStep H s" H]
  by (simp add: update_running paddles_legal_def geometry_def)

lemma mousemove_legal:
  "paddle_height (leftPaddle s) = PADDLE_HEIGHT \<Longrightarrow> PADDLE_HEIGHT \<le> H \<Longrightarrow>
   legal_y H (paddle_y (leftPaddle (mousemove H clientY rect_top rect_height s)))"
  using clamp_bounds[of 0 "H - PADDLE_HEIGHT"]
  by (simp add: mousemove_def Let_def legal_y_def)

lemma touchmove_legal:
  "paddle_height (leftPaddle s) = PADDLE_HEIGHT \<Longrightarrow> PADDLE_HEIGHT \<le> H \<Longrightarrow>
   legal_y H (paddle_y (leftPaddle (touchmove H (t # ts) rect_top rect_height s)))"
  using clamp_bounds[of 0 "H - PADDLE_HEIGHT"]
  by (simp add: touchmove_def Let_def legal_y_def)

subsection \<open>Collisions\<close>

lemma geometry_height:
  "geometry W s \<Longrightarrow> paddle_height (deref p s) = 90 \<and> ball_radius (ball s) = 9"
  by (cases p) (simp_all add: geometry_def PADDLE_HEIGHT_def)

lemma collision_relativeY:
  assumes g: "geometry W s" and c: "paddleCollision p s"
  shows "\<bar>relativeY p s\<bar> \<le> 6 / 5"
proof -
  define py where "py = paddle_y (deref p s)"
  define dx where "dx = ball_x (ball s)
    - clamp (ball_x (ball s)) (paddle_x (deref p s)) (paddle_x (deref p s) + paddle_width (deref p s))"
  define dy where "dy = ball_y (ball s) - clamp (ball_y (ball s)) py (py + 90)"
  have h: "paddle_height (deref p s) = 90" "ball_radius (ball s) = 9"
    using geometry_height[OF g] by auto
  have "dx * dx + dy * dy \<le> 9 * 9"
    using c by (simp add: paddleCollision_def Let_def h dx_def dy_def py_def)
  moreover have "0 \<le> dx * dx" by simp
  ultimately have "dy * dy \<le> 9 * 9" by linarith
  then have "dy\<^sup>2 \<le> 9\<^sup>2" by (simp add: power2_eq_square)
  then have "\<bar>dy\<bar> \<le> 9" using abs_le_square_iff[of dy 9] by simp
  then have "\<bar>ball_y (ball s) - (py + 45)\<bar> \<le> 54"
    by (auto simp: dy_def clamp_def max_def min_def split: if_splits)
  then show ?thesis
    by (simp add: relativeY_def h py_def)
qed

lemma collision_dx:
  assumes g: "geometry W s" and c: "paddleCollision p s"
  shows "\<bar>ball_x (ball s)
          - clamp (ball_x (ball s)) (paddle_x (deref p s)) (paddle_x (deref p s) + 12)\<bar> \<le> 9"
proof -
  define dx where "dx = ball_x (ball s)
    - clamp (ball_x (ball s)) (paddle_x (deref p s)) (paddle_x (deref p s) + 12)"
  define dy where "dy = ball_y (ball s)
    - clamp (ball_y (ball s)) (paddle_y (deref p s)) (paddle_y (deref p s) + 90)"
  have h: "paddle_height (deref p s) = 90" "ball_radius (ball s) = 9"
    using geometry_height[OF g] by auto
  have w: "paddle_width (deref p s) = 12"
    using g by (cases p) (simp_all add: geometry_def PADDLE_WIDTH_def)
  have "dx * dx + dy * dy \<le> 9 * 9"
    using c by (simp add: paddleCollision_def Let_def h w dx_def dy_def)
  moreover have "0 \<le> dy * dy" by simp
  ultimately have "dx * dx \<le> 9 * 9" by linarith
  then have "dx\<^sup>2 \<le> 9\<^sup>2" by (simp add: power2_eq_square)
  then have "\<bar>dx\<bar> \<le> 9" using abs_le_square_iff[of dx 9] by simp
  then show ?thesis by (simp add: dx_def)
qed

lemma reflect_vx_formula:
  "ball_vx (ball (reflectFromPaddle p s)) =
     (let d = (if p = LeftPaddle then 1 else - 1);
          x = d * (hypot (ball_vx (ball s)) (ball_vy (ball s)) + 0.8) * cos (bounceAngle p s)
      in if \<bar>x\<bar> < 2.5 then d * 2.5 else x)"
  by (simp add: reflectFromPaddle_def Let_def)


lemma reflect_vx_away:
  assumes r: "\<bar>relativeY p s\<bar> < 3 / 2"
  shows "(p = LeftPaddle \<longrightarrow> ball_vx (ball (reflectFromPaddle p s)) \<ge> 2.5)
       \<and> (p = RightPaddle \<longrightarrow> ball_vx (ball (reflectFromPaddle p s)) \<le> - 2.5)"
proof -
  define a where "a = bounceAngle p s"
  define c where "c = hypot (ball_vx (ball s)) (ball_vy (ball s)) + 0.8"
  define d :: real where "d = (if p = LeftPaddle then 1 else - 1)"
  have "\<bar>a\<bar> = \<bar>relativeY p s\<bar> * (pi / 3)"
    by (simp add: a_def bounceAngle_def maxAngle_def abs_mult)
  also have "\<dots> < (3 / 2) * (pi / 3)"
    using r by (intro mult_strict_right_mono) auto
  finally have "\<bar>a\<bar> < pi / 2" by simp
  then have "0 < cos a" by (intro cos_gt_zero_pi) auto
  moreover have "0 < c"
    using hypot_nonneg[of "ball_vx (ball s)" "ball_vy (ball s)"] by (simp add: c_def)
  ultimately have pos: "0 < c * cos a" by simp
  have eq: "ball_vx (ball (reflectFromPaddle p s))
      = (if \<bar>d * (c * cos a)\<bar> < 2.5 then d * 2.5 else d * (c * cos a))"
    by (simp add: reflect_vx_formula Let_def a_def c_def d_def mult.assoc)
  have l: "ball_vx (ball (reflectFromPaddle p s)) \<ge> 2.5" if "d = 1"
    using pos that by (simp add: eq)
  have r: "ball_vx (ball (reflectFromPaddle p s)) \<le> - 2.5" if "d = - 1"
    using pos that by (simp add: eq)
  have "p = LeftPaddle \<Longrightarrow> d = 1" and "p = RightPaddle \<Longrightarrow> d = - 1"
    by (simp_all add: d_def)
  then show ?thesis using l r by blast
qed

lemma reflect_vx_floor: "\<bar>ball_vx (ball (reflectFromPaddle p s))\<bar> \<ge> 2.5"
proof -
  define x where "x = (hypot (ball_vx (ball s)) (ball_vy (ball s)) + 0.8) * cos (bounceAngle p s)"
  define d :: real where "d = (if p = LeftPaddle then 1 else - 1)"
  have eq: "ball_vx (ball (reflectFromPaddle p s))
      = (if \<bar>d * x\<bar> < 2.5 then d * 2.5 else d * x)"
    by (simp add: reflect_vx_formula Let_def x_def d_def mult.assoc)
  have "d = 1 \<or> d = - 1" by (simp add: d_def)
  then show ?thesis by (auto simp: eq)
qed

lemma paddleBounce_ball_x:
  "ball_x (ball (paddleBounce s)) =
     (if ball_vx (ball s) < 0 \<and> paddleCollision LeftPaddle s
      then paddle_x (leftPaddle s) + paddle_width (leftPaddle s) + ball_radius (ball s)
      else if ball_vx (ball s) > 0 \<and> paddleCollision RightPaddle s
      then paddle_x (rightPaddle s) - ball_radius (ball s)
      else ball_x (ball s))"
  by (simp add: paddleBounce_def)

lemma paddleBounce_left_out:
  assumes g: "geometry W s" and x: "ball_x (ball s) < - 9"
  shows "ball_x (ball (paddleBounce s)) < - 9"
proof -
  have l: "\<not> paddleCollision LeftPaddle s"
  proof
    assume "paddleCollision LeftPaddle s"
    from collision_dx[OF g this] x g show False
      by (simp add: clamp_def geometry_def)
  qed
  have r: "paddle_x (rightPaddle s) - ball_radius (ball s) < - 9"
    if "paddleCollision RightPaddle s"
    using collision_dx[OF g that] x g
    by (simp add: clamp_def geometry_def PADDLE_WIDTH_def max_def min_def split: if_splits)
  show ?thesis using l r x by (simp add: paddleBounce_ball_x)
qed

lemma paddleBounce_right_out:
  assumes g: "geometry W s" and x: "ball_x (ball s) > W + 9"
  shows "ball_x (ball (paddleBounce s)) > W + 9"
proof -
  have r: "\<not> paddleCollision RightPaddle s"
  proof
    assume "paddleCollision RightPaddle s"
    from collision_dx[OF g this] x g show False
      by (simp add: clamp_def geometry_def PADDLE_WIDTH_def max_def min_def split: if_splits)
  qed
  have l: "paddle_x (leftPaddle s) + paddle_width (leftPaddle s) + ball_radius (ball s) > W + 9"
    if "paddleCollision LeftPaddle s"
    using collision_dx[OF g that] x g
    by (simp add: clamp_def geometry_def PADDLE_WIDTH_def max_def min_def split: if_splits)
  show ?thesis using l r x by (simp add: paddleBounce_ball_x)
qed

lemma physics_left_out:
  assumes "geometry W s" and "ball_x (ball s) + ball_vx (ball s) < - ball_radius (ball s)"
  shows "ball_x (ball (physics H s)) < - ball_radius (ball (physics H s))"
proof -
  have r: "ball_radius (ball s) = 9" using assms(1) by (simp add: geometry_def)
  have "ball_x (ball (physics H s)) < - 9"
    using assms by (intro paddleBounce_left_out[of W]) (simp_all add: r)
  then show ?thesis by (simp add: r)
qed

lemma physics_right_out:
  assumes "geometry W s" and "ball_x (ball s) + ball_vx (ball s) > W + ball_radius (ball s)"
  shows "ball_x (ball (physics H s)) > W + ball_radius (ball (physics H s))"
proof -
  have r: "ball_radius (ball s) = 9" using assms(1) by (simp add: geometry_def)
  have "ball_x (ball (physics H s)) > W + 9"
    using assms by (intro paddleBounce_right_out[of W]) (simp_all add: r)
  then show ?thesis by (simp add: r)
qed

subsection \<open>The score check and the end of the match\<close>

lemma scoreCheck_left:
  assumes "ball_x (ball t) < - ball_radius (ball t)"
  shows "scoreCheck W H u t =
     (if WIN_SCORE \<le> computerScore t + 1
      then endGame False (updateScoreboard (t\<lparr>computerScore := computerScore t + 1\<rparr>))
      else resetBall W H 1 u 0 (updateScoreboard (t\<lparr>computerScore := computerScore t + 1\<rparr>)))"
  using assms by (simp add: scoreCheck_def Let_def updateScoreboard_def)

lemma scoreCheck_right:
  assumes "\<not> ball_x (ball t) < - ball_radius (ball t)"
    and "ball_x (ball t) > W + ball_radius (ball t)"
  shows "scoreCheck W H u t =
     (if WIN_SCORE \<le> playerScore t + 1
      then endGame True (updateScoreboard (t\<lparr>playerScore := playerScore t + 1\<rparr>))
      else resetBall W H (- 1) u 0 (updateScoreboard (t\<lparr>playerScore := playerScore t + 1\<rparr>)))"
  using assms by (simp add: scoreCheck_def Let_def updateScoreboard_def)

lemma scoreCheck_win:
  assumes "playerScore (scoreCheck W H u t) = WIN_SCORE \<and> playerScore t \<noteq> WIN_SCORE
         \<or> computerScore (scoreCheck W H u t) = WIN_SCORE \<and> computerScore t \<noteq> WIN_SCORE"
  shows "gameOver (scoreCheck W H u t)"
  using assms
  by (auto simp: scoreCheck_def Let_def updateScoreboard_def endGame_def split: if_splits)

lemma update_win:
  assumes "playerScore (update W H u s) = WIN_SCORE \<and> playerScore s \<noteq> WIN_SCORE
         \<or> computerScore (update W H u s) = WIN_SCORE \<and> computerScore s \<noteq> WIN_SCORE"
  shows "gameOver (update W H u s)"
proof (cases "paused s \<or> gameOver s")
  case True
  then have "update W H u s = s" by (rule update_halted)
  then show ?thesis using assms by auto
next
  case False
  then have run: "update W H u s = scoreCheck W H u (physics H s)"
    by (simp add: update_running)
  show ?thesis
    unfolding run using assms scoreCheck_win[of W H u "physics H s"]
    by (simp add: run)
qed

lemma gameOver_handle: "gameOver s \<Longrightarrow> gameOver (handle W H s ev)"
  by (cases ev)
    (simp_all add: loop_def update_def keydown_def keyup_def mousemove_def touchmove_def
      start_def updateScoreboard_def requestAnimationFrame_def Let_def split: list.splits)

lemma gameOver_foldl: "gameOver s \<Longrightarrow> gameOver (foldl (handle W H) s evs)"
  by (induction evs arbitrary: s) (simp_all add: gameOver_handle)

subsection \<open>The sample states\<close>

lemmas step_defs = update_def keyboardStep_def aiStep_def ballMove_def wallCollision_def
  paddleBounce_def scoreCheck_def paddleCollision_def clamp_def endGame_def
  updateScoreboard_def PADDLE_SPEED_def WIN_SCORE_def

lemma loaded_eq: "loaded =
  \<lparr>paused = False, gameOver = False,
    leftPaddle = \<lparr>paddle_x = 20, paddle_y = 205, paddle_width = 12,
                   paddle_height = 90, paddle_dy = 0\<rparr>,
    rightPaddle = \<lparr>paddle_x = 768, paddle_y = 205, paddle_width = 12,
                    paddle_height = 90, paddle_dy = 0, maxSpeed = 10\<rparr>,
    ball = \<lparr>ball_x = 400, ball_y = 250, ball_radius = 9, ball_speed = 9,
             ball_vx = 9, ball_vy = 0\<rparr>,
    playerScore = 0, computerScore = 0,
    keys = \<lparr>ArrowUp = False, ArrowDown = False\<rparr>, playerScoreEl = 0,
    computerScoreEl = 0, message_hidden = True, message_text = [],
    frames_requested = 1\<rparr>"
  by (simp add: loaded_def initial_def kickoff_def resetBall_def updateScoreboard_def
      requestAnimationFrame_def serveAngle_def PADDLE_HEIGHT_def PADDLE_WIDTH_def Let_def)

lemma geometry_loaded: "geometry 800 loaded"
  by (simp add: geometry_def loaded_eq PADDLE_HEIGHT_def PADDLE_WIDTH_def)

lemma geometry_set_ball [simp]: "geometry W (set_ball x y vx vy s) = geometry W s"
  by (simp add: geometry_def set_ball_def)

lemma behind_left_step:
  "update 800 500 (1/2) behind_left_moving_right = set_ball (- 1) 250 9 0 loaded"
  by (simp add: behind_left_moving_right_def set_ball_def loaded_eq step_defs Let_def)

lemma match_over_eq: "match_over =
  \<lparr>paused = True, gameOver = True,
    leftPaddle = \<lparr>paddle_x = 20, paddle_y = 205, paddle_width = 12,
                   paddle_height = 90, paddle_dy = 0\<rparr>,
    rightPaddle = \<lparr>paddle_x = 768, paddle_y = 205, paddle_width = 12,
                    paddle_height = 90, paddle_dy = 0, maxSpeed = 10\<rparr>,
    ball = \<lparr>ball_x = - 19, ball_y = 250, ball_radius = 9, ball_speed = 9,
             ball_vx = - 9, ball_vy = 0\<rparr>,
    playerScore = 0, computerScore = 10,
    keys = \<lparr>ArrowUp = False, ArrowDown = False\<rparr>, playerScoreEl = 0,
    computerScoreEl = 10, message_hidden = False,
    message_text = ''Computer wins. Refresh to try again.'',
    frames_requested = 1\<rparr>"
  by (simp add: match_over_def match_point_def leaving_left_def set_ball_def loaded_eq
      step_defs Let_def)

subsection \<open>Rounding to binary64\<close>


lemma rne_of_int [simp]: "rne (of_int n) = n"
  by (simp add: rne_def)









subsection \<open>The rounded bounce\<close>



lemma reflectFromPaddle_fp_exact:
  "reflectFromPaddle_fp exact_fpu p s = reflectFromPaddle p s"
  unfolding reflectFromPaddle_fp_def reflectFromPaddle_def exact_fpu_def Let_def
    bounceAngle_def relativeY_def maxAngle_def
  by (simp only: fpu.select_convs)







section \<open>The claims\<close>

subsection \<open>Win condition\<close>

text \<open>
  Claim C1. When a step brings either score to exactly \<open>WIN_SCORE\<close> (10), the state
  after that step has \<open>gameOver\<close> set, and every later call of \<open>update\<close> returns the
  state it is given: directly afterwards, and after any sequence of events (frames,
  key presses, pointer moves, calls of \<open>start\<close> or \<open>resetBall\<close>), since no handler
  clears \<open>gameOver\<close>.
\<close>

theorem win_ends_match:
  assumes "playerScore (update W H u s) = WIN_SCORE \<and> playerScore s \<noteq> WIN_SCORE
         \<or> computerScore (update W H u s) = WIN_SCORE \<and> computerScore s \<noteq> WIN_SCORE"
  shows "gameOver (update W H u s)
       \<and> (\<forall>u'. update W H u' (update W H u s) = update W H u s)
       \<and> (\<forall>evs u'. update W H u' (foldl (handle W H) (update W H u s) evs)
                     = foldl (handle W H) (update W H u s) evs)"
proof -
  have over: "gameOver (update W H u s)" by (rule update_win[OF assms])
  have later: "update W H u' (foldl (handle W H) (update W H u s) evs)
                 = foldl (handle W H) (update W H u s) evs" for evs u'
    using gameOver_foldl[OF over, of W H evs] by (simp add: update_halted)
  have "update W H u' (update W H u s) = update W H u s" for u'
    using over by (simp add: update_halted)
  then show ?thesis using over later by blast
qed

theorem win_ends_match_witness:
  "computerScore (update 800 500 (1/2) match_point) = WIN_SCORE
     \<and> computerScore match_point \<noteq> WIN_SCORE
     \<and> gameOver (update 800 500 (1/2) match_point)
     \<and> update 800 500 (1/3) (update 800 500 (1/2) match_point)
         = update 800 500 (1/2) match_point
     \<and> update 800 500 (1/3)
         (foldl (handle 800 500) (update 800 500 (1/2) match_point)
            [KeyDown ''Space'', Frame (1/4), MouseMove 10 0 250])
         = foldl (handle 800 500) (update 800 500 (1/2) match_point)
            [KeyDown ''Space'', Frame (1/4), MouseMove 10 0 250]"
proof -
  have h: "computerScore (update 800 500 (1/2) match_point) = WIN_SCORE
     \<and> computerScore match_point \<noteq> WIN_SCORE"
    using match_over_eq
    by (simp add: match_over_def WIN_SCORE_def)
      (simp add: match_point_def leaving_left_def set_ball_def loaded_eq)
  show ?thesis
    using h win_ends_match[of 800 500 "1/2" match_point] by blast
qed

subsection \<open>Paddle bounces\<close>




text \<open>Without rounding a bounce gains at least 0.8.\<close>

lemma bounce_speed_exact:
  "hypot (ball_vx (ball (reflectFromPaddle p s))) (ball_vy (ball (reflectFromPaddle p s)))
     \<ge> hypot (ball_vx (ball s)) (ball_vy (ball s)) + 0.8
   \<and> hypot (ball_vx (ball (reflectFromPaddle p s))) (ball_vy (ball (reflectFromPaddle p s)))
     \<ge> hypot (ball_vx (ball s)) (ball_vy (ball s))"
proof -
  define c where "c = hypot (ball_vx (ball s)) (ball_vy (ball s)) + 0.8"
  define d :: real where "d = (if p = LeftPaddle then 1 else - 1)"
  define a where "a = bounceAngle p s"
  have c0: "0 \<le> c"
    using hypot_nonneg[of "ball_vx (ball s)" "ball_vy (ball s)"] by (simp add: c_def)
  have d: "d = 1 \<or> d = - 1" by (simp add: d_def)
  have vy: "ball_vy (ball (reflectFromPaddle p s)) = c * sin a"
    by (simp add: reflectFromPaddle_def Let_def c_def a_def)
  have vx: "\<bar>d * c * cos a\<bar> \<le> \<bar>ball_vx (ball (reflectFromPaddle p s))\<bar>"
    using d by (auto simp add: reflectFromPaddle_def Let_def c_def a_def d_def)
  have "c = hypot (d * c * cos a) (c * sin a)"
    using hypot_polar[OF d c0] by simp
  also have "\<dots> \<le> hypot (ball_vx (ball (reflectFromPaddle p s))) (c * sin a)"
    by (rule hypot_mono[OF vx])
  finally have "c \<le> hypot (ball_vx (ball (reflectFromPaddle p s)))
                        (ball_vy (ball (reflectFromPaddle p s)))"
    by (simp add: vy)
  then show ?thesis by (simp add: c_def)
qed



text \<open>
  Claim C7. In the paddle block of the step, a hit on the left paddle leaves the
  ball with \<open>vx \<ge> 2.5\<close> and a hit on the right paddle with \<open>vx \<le> -2.5\<close>: the
  magnitude is at least 2.5 and the sign points away from the paddle, whatever the
  hit position and the speed before. The magnitude bound holds for every call of
  \<open>reflectFromPaddle\<close>.
\<close>

theorem bounce_horizontal_floor:
  assumes "geometry W s"
  shows "(ball_vx (ball s) < 0 \<and> paddleCollision LeftPaddle s
            \<longrightarrow> ball_vx (ball (paddleBounce s)) \<ge> 2.5)
       \<and> (ball_vx (ball s) > 0 \<and> paddleCollision RightPaddle s
            \<longrightarrow> ball_vx (ball (paddleBounce s)) \<le> - 2.5)
       \<and> \<bar>ball_vx (ball (reflectFromPaddle p t))\<bar> \<ge> 2.5"
proof -
  have l: "ball_vx (ball (paddleBounce s)) \<ge> 2.5"
    if "ball_vx (ball s) < 0" "paddleCollision LeftPaddle s"
  proof -
    have "\<bar>relativeY LeftPaddle s\<bar> < 3 / 2"
      using collision_relativeY[OF assms that(2)] by simp
    then show ?thesis
      using that reflect_vx_away[of LeftPaddle
        "s\<lparr>ball := (ball s)\<lparr>ball_x := paddle_x (leftPaddle s)
                 + paddle_width (leftPaddle s) + ball_radius (ball s)\<rparr>\<rparr>"]
      by (simp add: paddleBounce_def)
  qed
  have r: "ball_vx (ball (paddleBounce s)) \<le> - 2.5"
    if "ball_vx (ball s) > 0" "paddleCollision RightPaddle s"
  proof -
    have "\<bar>relativeY RightPaddle s\<bar> < 3 / 2"
      using collision_relativeY[OF assms that(2)] by simp
    then show ?thesis
      using that reflect_vx_away[of RightPaddle
        "s\<lparr>ball := (ball s)\<lparr>ball_x := paddle_x (rightPaddle s) - ball_radius (ball s)\<rparr>\<rparr>"]
      by (simp add: paddleBounce_def)
  qed
  show ?thesis using l r reflect_vx_floor[of p t] by blast
qed

theorem bounce_horizontal_floor_witness:
  "geometry 800 hits_left_centre
     \<and> ball_vx (ball hits_left_centre) < 0 \<and> paddleCollision LeftPaddle hits_left_centre
     \<and> ball_vx (ball (paddleBounce hits_left_centre)) \<ge> 2.5
     \<and> geometry 800 hits_right_centre
     \<and> ball_vx (ball hits_right_centre) > 0 \<and> paddleCollision RightPaddle hits_right_centre
     \<and> ball_vx (ball (paddleBounce hits_right_centre)) \<le> - 2.5"
proof -
  have g: "geometry 800 hits_left_centre" "geometry 800 hits_right_centre"
    by (simp_all add: hits_left_centre_def hits_right_centre_def geometry_loaded)
  have c: "ball_vx (ball hits_left_centre) < 0 \<and> paddleCollision LeftPaddle hits_left_centre"
    "ball_vx (ball hits_right_centre) > 0 \<and> paddleCollision RightPaddle hits_right_centre"
    by (simp_all add: hits_left_centre_def hits_right_centre_def set_ball_def loaded_eq
        paddleCollision_def clamp_def Let_def)
  show ?thesis
    using g c bounce_horizontal_floor[OF g(1), of LeftPaddle hits_left_centre]
      bounce_horizontal_floor[OF g(2), of RightPaddle hits_right_centre]
    by blast
qed

subsection \<open>Scoring\<close>

text \<open>
  Claim C3, as amended. \<open>update\<close> moves the ball before it checks the score. For a
  running state on a canvas of non-negative width, and a draw in \<open>[0, 1)\<close>: if the
  centre after the translation, \<open>x + vx\<close>, is strictly below \<open>-radius\<close> (for a centre
  at \<open>-radius - 1\<close>, in exact arithmetic: if \<open>vx < 1\<close>), one step adds exactly one to
  the computer's score and leaves the player's, and, when the new score is below
  the threshold, serves from the centre with \<open>vx > 0\<close>. Symmetrically, if \<open>x + vx\<close>
  is strictly above \<open>WIDTH + radius\<close>, the player scores and the serve has
  \<open>vx < 0\<close>.
\<close>

theorem scoring_after_translation:
  assumes "geometry W s" and "0 \<le> W" and "\<not> paused s" and "\<not> gameOver s"
    and "0 \<le> u" and "u < 1"
  shows "(ball_x (ball s) + ball_vx (ball s) < - ball_radius (ball s) \<longrightarrow>
            computerScore (update W H u s) = computerScore s + 1
          \<and> playerScore (update W H u s) = playerScore s
          \<and> (computerScore s + 1 < WIN_SCORE \<longrightarrow>
                ball_vx (ball (update W H u s)) > 0
              \<and> ball_x (ball (update W H u s)) = W / 2
              \<and> ball_y (ball (update W H u s)) = H / 2))
       \<and> (ball_x (ball s) + ball_vx (ball s) > W + ball_radius (ball s) \<longrightarrow>
            playerScore (update W H u s) = playerScore s + 1
          \<and> computerScore (update W H u s) = computerScore s
          \<and> (playerScore s + 1 < WIN_SCORE \<longrightarrow>
                ball_vx (ball (update W H u s)) < 0
              \<and> ball_x (ball (update W H u s)) = W / 2
              \<and> ball_y (ball (update W H u s)) = H / 2))"
proof -
  have run: "update W H u s = scoreCheck W H u (physics H s)"
    using assms(3,4) by (rule update_running)
  have rad: "ball_radius (ball s) = 9" using assms(1) by (simp add: geometry_def)
  have cpos: "0 < serveSpeed t * cos (serveAngle u)" for t
    using serveSpeed_pos[of t] serveAngle_bounds[OF assms(5,6)]
      cos_gt_zero_pi[of "serveAngle u"] pi_gt_zero
    by (simp add: zero_less_mult_iff)
  have L: "computerScore (update W H u s) = computerScore s + 1
          \<and> playerScore (update W H u s) = playerScore s
          \<and> (computerScore s + 1 < WIN_SCORE \<longrightarrow>
                ball_vx (ball (update W H u s)) > 0
              \<and> ball_x (ball (update W H u s)) = W / 2
              \<and> ball_y (ball (update W H u s)) = H / 2)"
    if out: "ball_x (ball s) + ball_vx (ball s) < - ball_radius (ball s)"
  proof -
    have "ball_x (ball (physics H s)) < - ball_radius (ball (physics H s))"
      by (rule physics_left_out[OF assms(1) out])
    then show ?thesis
      using cpos by (simp add: run scoreCheck_left endGame_def updateScoreboard_def
          resetBall_velocity resetBall_position)
  qed
  have R: "playerScore (update W H u s) = playerScore s + 1
          \<and> computerScore (update W H u s) = computerScore s
          \<and> (playerScore s + 1 < WIN_SCORE \<longrightarrow>
                ball_vx (ball (update W H u s)) < 0
              \<and> ball_x (ball (update W H u s)) = W / 2
              \<and> ball_y (ball (update W H u s)) = H / 2)"
    if out: "ball_x (ball s) + ball_vx (ball s) > W + ball_radius (ball s)"
  proof -
    have gt: "ball_x (ball (physics H s)) > W + ball_radius (ball (physics H s))"
      by (rule physics_right_out[OF assms(1) out])
    then have "\<not> ball_x (ball (physics H s)) < - ball_radius (ball (physics H s))"
      using assms(2) by (simp add: rad)
    then show ?thesis
      using gt cpos by (simp add: run scoreCheck_right endGame_def updateScoreboard_def
          resetBall_velocity resetBall_position)
  qed
  show ?thesis using L R by blast
qed

theorem scoring_after_translation_witness:
  "geometry 800 leaving_left \<and> (0::real) \<le> 800
     \<and> \<not> paused leaving_left \<and> \<not> gameOver leaving_left \<and> (0::real) \<le> 1/2 \<and> (1/2::real) < 1
     \<and> ball_x (ball leaving_left) = - ball_radius (ball leaving_left) - 1
     \<and> ball_x (ball leaving_left) + ball_vx (ball leaving_left) < - ball_radius (ball leaving_left)
     \<and> computerScore leaving_left + 1 < WIN_SCORE
     \<and> computerScore (update 800 500 (1/2) leaving_left) = computerScore leaving_left + 1
     \<and> ball_vx (ball (update 800 500 (1/2) leaving_left)) > 0
     \<and> geometry 800 leaving_right
     \<and> \<not> paused leaving_right \<and> \<not> gameOver leaving_right
     \<and> ball_x (ball leaving_right) = 800 + ball_radius (ball leaving_right) + 1
     \<and> ball_x (ball leaving_right) + ball_vx (ball leaving_right)
           > 800 + ball_radius (ball leaving_right)
     \<and> playerScore leaving_right + 1 < WIN_SCORE
     \<and> playerScore (update 800 500 (1/2) leaving_right) = playerScore leaving_right + 1
     \<and> ball_vx (ball (update 800 500 (1/2) leaving_right)) < 0"
proof -
  have g: "geometry 800 leaving_left" "geometry 800 leaving_right"
    by (simp_all add: leaving_left_def leaving_right_def geometry_loaded)
  have l: "\<not> paused leaving_left" "\<not> gameOver leaving_left"
    "ball_x (ball leaving_left) = - ball_radius (ball leaving_left) - 1"
    "ball_x (ball leaving_left) + ball_vx (ball leaving_left) < - ball_radius (ball leaving_left)"
    "computerScore leaving_left + 1 < WIN_SCORE"
    by (simp_all add: leaving_left_def set_ball_def loaded_eq WIN_SCORE_def)
  have r: "\<not> paused leaving_right" "\<not> gameOver leaving_right"
    "ball_x (ball leaving_right) = 800 + ball_radius (ball leaving_right) + 1"
    "ball_x (ball leaving_right) + ball_vx (ball leaving_right)
           > 800 + ball_radius (ball leaving_right)"
    "playerScore leaving_right + 1 < WIN_SCORE"
    by (simp_all add: leaving_right_def set_ball_def loaded_eq WIN_SCORE_def)
  have u: "(0::real) \<le> 1/2" "(1/2::real) < 1" "(0::real) \<le> 800" by simp_all
  show ?thesis
    using g l r u
      scoring_after_translation[OF g(1) u(3) l(1,2) u(1,2), of 500]
      scoring_after_translation[OF g(2) u(3) r(1,2) u(1,2), of 500]
    by blast
qed

text \<open>
  Claim C3 as stated fails: with the ball's centre at \<open>-radius - 1\<close> and the ball
  moving right at the serve speed 9, one step of a running game moves the ball to
  \<open>x = -1\<close> and leaves the computer's score unchanged.
\<close>

theorem ball_behind_left_edge_counterexample:
  "\<not> paused behind_left_moving_right \<and> \<not> gameOver behind_left_moving_right
     \<and> ball_x (ball behind_left_moving_right) = - ball_radius (ball behind_left_moving_right) - 1
     \<and> computerScore (update 800 500 (1/2) behind_left_moving_right)
         = computerScore behind_left_moving_right
     \<and> ball_x (ball (update 800 500 (1/2) behind_left_moving_right)) = - 1"
  by (simp add: behind_left_step) (simp add: behind_left_moving_right_def set_ball_def loaded_eq)

subsection \<open>The pause key\<close>

text \<open>
  Claim C4. The match has ended with the computer's win: \<open>gameOver\<close> and \<open>paused\<close> are
  set and the message reads that the computer wins. A press of the space key then
  clears \<open>paused\<close>, hides the message and replaces its text by the empty string;
  \<open>gameOver\<close> stays set.
\<close>

theorem space_key_after_match_over:
  "gameOver match_over \<and> paused match_over \<and> \<not> message_hidden match_over
     \<and> message_text match_over = ''Computer wins. Refresh to try again.''
     \<and> gameOver (keydown ''Space'' match_over)
     \<and> \<not> paused (keydown ''Space'' match_over)
     \<and> message_hidden (keydown ''Space'' match_over)
     \<and> message_text (keydown ''Space'' match_over) = []"
  by (simp add: match_over_eq keydown_def Let_def)

text \<open>While the match is not over the space key flips \<open>paused\<close>.\<close>

lemma space_toggles_pause:
  "\<not> gameOver s \<Longrightarrow>
     paused (keydown ''Space'' s) = (\<not> paused s) \<and> \<not> gameOver (keydown ''Space'' s)"
  by (simp add: keydown_def Let_def requestAnimationFrame_def)

subsection \<open>The start entry point\<close>

text \<open>
  Claim C5. \<open>start\<close> calls \<open>resetBall\<close> before it clears the scores. Called at 3 to
  2 it leaves both scores at 0, but the serve has speed \<open>9 + 5 * 0.35 = 10.75\<close>,
  where the serve of the script's own kick-off, at 0 to 0, has speed 9.
\<close>

theorem start_serves_with_old_scores:
  "playerScore mid_match = 3 \<and> computerScore mid_match = 2
     \<and> playerScore (start 800 500 (1/2) (1/2) (1/2) mid_match) = 0
     \<and> computerScore (start 800 500 (1/2) (1/2) (1/2) mid_match) = 0
     \<and> ball_speed (ball (start 800 500 (1/2) (1/2) (1/2) mid_match)) = 10.75
     \<and> ball_speed (ball loaded) = 9"
  by (simp add: mid_match_def loaded_eq start_def loop_def resetBall_def serveAngle_def
      requestAnimationFrame_def step_defs Let_def)

subsection \<open>Serves\<close>

text \<open>
  Claim C10. \<open>resetBall\<close> puts the centre of the ball at the centre of the playfield,
  \<open>(WIDTH / 2, HEIGHT / 2)\<close>, for every direction argument, every score pair and
  every random draw.
\<close>

theorem resetBall_centres_ball:
  "ball_x (ball (resetBall W H direction u u' s)) = W / 2 \<and>
   ball_y (ball (resetBall W H direction u u' s)) = H / 2"
  by (simp add: resetBall_def Let_def)

text \<open>
  Claim C8. For every score pair and every draw \<open>u\<close> of \<open>Math.random()\<close>, which lies
  in \<open>[0, 1)\<close>: \<open>resetBall(1)\<close> gives \<open>vx > 0\<close>, \<open>resetBall(-1)\<close> gives \<open>vx < 0\<close>, and
  the serve angle is at most 45 degrees off the horizontal, both as the angle the
  function computes and as the slope of the velocity it assigns.
\<close>

theorem serve_direction_and_angle:
  assumes "0 \<le> u" and "u < 1"
  shows "ball_vx (ball (resetBall W H 1 u u' s)) > 0
       \<and> ball_vx (ball (resetBall W H (- 1) u u' s)) < 0
       \<and> \<bar>serveAngle u\<bar> \<le> (45 * pi) / 180
       \<and> \<bar>ball_vy (ball (resetBall W H 1 u u' s))\<bar> \<le> \<bar>ball_vx (ball (resetBall W H 1 u u' s))\<bar>
       \<and> \<bar>ball_vy (ball (resetBall W H (- 1) u u' s))\<bar>
            \<le> \<bar>ball_vx (ball (resetBall W H (- 1) u u' s))\<bar>"
proof -
  let ?a = "serveAngle u"
  have a: "\<bar>?a\<bar> \<le> pi / 4" using serveAngle_bounds[OF assms] by auto
  have c: "0 < cos ?a" using a by (intro cos_pos_of_abs) (use pi_gt_zero in linarith)
  have v: "0 < serveSpeed s" by (rule serveSpeed_pos)
  have sc: "\<bar>sin ?a\<bar> \<le> cos ?a" by (rule abs_sin_le_cos[OF a])
  have p: "0 < serveSpeed s * cos ?a" using v c by simp
  have q: "\<bar>serveSpeed s * sin ?a\<bar> \<le> serveSpeed s * cos ?a"
    using v sc by (simp add: abs_mult)
  show ?thesis using a p q by (simp add: resetBall_velocity)
qed

theorem serve_direction_and_angle_witness:
  "(0::real) \<le> 1/2 \<and> (1/2 :: real) < 1
     \<and> ball_vx (ball (resetBall 800 500 1 (1/2) 0 loaded)) > 0
     \<and> ball_vx (ball (resetBall 800 500 (- 1) (1/2) 0 loaded)) < 0
     \<and> \<bar>serveAngle (1/2)\<bar> \<le> (45 * pi) / 180"
  using serve_direction_and_angle[of "1/2" 800 500 0 loaded] by simp

subsection \<open>Paddle positions\<close>

text \<open>
  Claim C9. On a playfield at least as high as a paddle, every assignment to a
  paddle's \<open>y\<close> leaves it in \<open>[0, HEIGHT - PADDLE_HEIGHT]\<close>: the keyboard and the
  computer's move in a step that runs, and the mouse and touch handlers (for a
  bounding rectangle of positive height), whatever the paddle's position before
  and whatever the pointer coordinate.
\<close>

theorem paddle_y_always_legal:
  assumes "geometry W s" and "PADDLE_HEIGHT \<le> H" and "0 < rect_height"
  shows "(\<not> paused s \<and> \<not> gameOver s \<longrightarrow>
            legal_y H (paddle_y (leftPaddle (update W H u s))) \<and>
            legal_y H (paddle_y (rightPaddle (update W H u s))))
       \<and> legal_y H (paddle_y (leftPaddle (mousemove H clientY rect_top rect_height s)))
       \<and> legal_y H (paddle_y (leftPaddle (touchmove H (t # ts) rect_top rect_height s)))"
  using assms update_legal[of W s H u] mousemove_legal[of s H] touchmove_legal[of s H]
  by (simp add: paddles_legal_def geometry_def)

theorem paddle_y_always_legal_witness:
  "geometry 800 loaded \<and> PADDLE_HEIGHT \<le> 500 \<and> (0::real) < 250
     \<and> \<not> paused loaded \<and> \<not> gameOver loaded
     \<and> legal_y 500 (paddle_y (leftPaddle (update 800 500 (1/2) loaded)))
     \<and> legal_y 500 (paddle_y (rightPaddle (update 800 500 (1/2) loaded)))
     \<and> legal_y 500 (paddle_y (leftPaddle (mousemove 500 100000 0 250 loaded)))
     \<and> legal_y 500 (paddle_y (leftPaddle (touchmove 500 [- 100000] 0 250 loaded)))"
  using paddle_y_always_legal[of 800 loaded 500 250 "1/2" 100000 0 "- 100000" "[]"]
    geometry_loaded
  by (simp add: PADDLE_HEIGHT_def loaded_eq)

end
